theory Spec2Isabelle
  imports Main "HOL-Library.Word"
begin

unbundle bit_operations_syntax

section \<open>Python values\<close>

text \<open>
  The script \<^verbatim>\<open>gen_container_ids.py\<close> works on three kinds of values: \<^verbatim>\<open>str\<close>, \<^verbatim>\<open>bytes\<close>
  and an insertion-ordered \<^verbatim>\<open>dict\<close> from \<^verbatim>\<open>str\<close> to \<^verbatim>\<open>str\<close>.

  A Python \<^verbatim>\<open>str\<close> is a sequence of Unicode code points, the integers from 0 to 0x10FFFF.
  The surrogate code points U+D800 to U+DFFF are code points too, and a \<^verbatim>\<open>str\<close> may hold
  them (\<^verbatim>\<open>"\ud800"\<close> is a legal literal). The type of code points excludes every other
  number, as Python does.
\<close>

typedef codepoint = "{n::nat. n < 1114112}"
  morphisms ord CodePoint
  by (rule exI [of _ 0]) simp

type_synonym pystr = "codepoint list"
type_synonym byte = "8 word"
type_synonym pybytes = "byte list"
type_synonym u64 = "64 word"

text \<open>A string literal of the source: every character of an Isabelle string is below 256.\<close>

definition str :: "string \<Rightarrow> pystr" where
  "str cs = map (\<lambda>c. CodePoint (of_char c)) cs"

text \<open>
  The exceptions of the library calls: \<^verbatim>\<open>s.encode()\<close> on a surrogate, the \<^verbatim>\<open>blake2b\<close>
  constructor on a digest size outside 1 to 64, and the interpreter's start-up on an
  encoding it has no codec for.
\<close>

datatype error = UnicodeEncodeError | ValueError | LookupError

section \<open>\<^verbatim>\<open>str.encode()\<close>\<close>

text \<open>
  \<^verbatim>\<open>s.encode()\<close> has the defaults \<^verbatim>\<open>encoding='utf-8'\<close> and \<^verbatim>\<open>errors='strict'\<close>. CPython's
  encoder writes one to four bytes per code point with shifts and masks, and with the
  strict error handler it raises \<^verbatim>\<open>UnicodeEncodeError\<close> at a surrogate.
\<close>

definition is_surrogate :: "codepoint \<Rightarrow> bool" where
  "is_surrogate c = (55296 \<le> ord c \<and> ord c \<le> 57343)"

definition utf8_char :: "nat \<Rightarrow> pybytes" where
  "utf8_char ch =
     (if ch < 128 then [of_nat ch]
      else if ch < 2048 then
        [of_nat (192 OR drop_bit 6 ch), of_nat (128 OR (ch AND 63))]
      else if ch < 65536 then
        [of_nat (224 OR drop_bit 12 ch), of_nat (128 OR (drop_bit 6 ch AND 63)),
         of_nat (128 OR (ch AND 63))]
      else
        [of_nat (240 OR drop_bit 18 ch), of_nat (128 OR (drop_bit 12 ch AND 63)),
         of_nat (128 OR (drop_bit 6 ch AND 63)), of_nat (128 OR (ch AND 63))])"

fun str_encode :: "pystr \<Rightarrow> error + pybytes" where
  "str_encode [] = Inr []"
| "str_encode (c # cs) =
     (if is_surrogate c then Inl UnicodeEncodeError
      else case str_encode cs of
             Inl e \<Rightarrow> Inl e
           | Inr bs \<Rightarrow> Inr (utf8_char (ord c) @ bs))"

section \<open>\<^verbatim>\<open>hashlib.blake2b\<close>\<close>

text \<open>
  \<^verbatim>\<open>hashlib.blake2b\<close> is BLAKE2b of RFC 7693. The script passes the data and
  \<^verbatim>\<open>digest_size=16\<close> and leaves every other parameter at its default: no key, no salt, no
  personalisation, \<^verbatim>\<open>fanout=1\<close>, \<^verbatim>\<open>depth=1\<close>, all tree parameters zero. The words are 64 bits
  wide and addition wraps.
\<close>

definition blake2b_IV :: "u64 list" where
  "blake2b_IV =
     [0x6a09e667f3bcc908, 0xbb67ae8584caa73b, 0x3c6ef372fe94f82b, 0xa54ff53a5f1d36f1,
      0x510e527fade682d1, 0x9b05688c2b3e6c1f, 0x1f83d9abfb41bd6b, 0x5be0cd19137e2179]"

definition blake2b_sigma :: "nat list list" where
  "blake2b_sigma =
     [[0, 1, 2, 3, 4, 5, 6, 7, 8, 9, 10, 11, 12, 13, 14, 15],
      [14, 10, 4, 8, 9, 15, 13, 6, 1, 12, 0, 2, 11, 7, 5, 3],
      [11, 8, 12, 0, 5, 2, 15, 13, 10, 14, 3, 6, 7, 1, 9, 4],
      [7, 9, 3, 1, 13, 12, 11, 14, 2, 6, 5, 10, 4, 0, 15, 8],
      [9, 0, 5, 7, 2, 4, 10, 15, 14, 1, 11, 12, 6, 8, 3, 13],
      [2, 12, 6, 10, 0, 11, 8, 3, 4, 13, 7, 5, 15, 14, 1, 9],
      [12, 5, 1, 15, 14, 13, 4, 10, 0, 7, 6, 3, 9, 2, 8, 11],
      [13, 11, 7, 14, 12, 1, 3, 9, 5, 0, 15, 4, 8, 6, 2, 10],
      [6, 15, 14, 9, 11, 3, 0, 8, 12, 2, 13, 7, 1, 4, 10, 5],
      [10, 2, 8, 4, 7, 6, 1, 5, 15, 11, 9, 14, 3, 12, 13, 0]]"

definition rotr64 :: "u64 \<Rightarrow> nat \<Rightarrow> u64" where
  "rotr64 w c = drop_bit c w OR push_bit (64 - c) w"

text \<open>The mixing function \<open>G\<close> of RFC 7693, section 3.1, on the work vector \<open>v\<close>.\<close>

definition G :: "u64 list \<Rightarrow> nat \<Rightarrow> nat \<Rightarrow> nat \<Rightarrow> nat \<Rightarrow> u64 \<Rightarrow> u64 \<Rightarrow> u64 list" where
  "G v a b c d x y =
     (let v = v[a := v ! a + v ! b + x];
          v = v[d := rotr64 (v ! d XOR v ! a) 32];
          v = v[c := v ! c + v ! d];
          v = v[b := rotr64 (v ! b XOR v ! c) 24];
          v = v[a := v ! a + v ! b + y];
          v = v[d := rotr64 (v ! d XOR v ! a) 16];
          v = v[c := v ! c + v ! d];
          v = v[b := rotr64 (v ! b XOR v ! c) 63]
      in v)"

text \<open>One round: the four columns, then the four diagonals, with the message words
  chosen by the row \<open>s\<close> of the permutation table.\<close>

definition round :: "u64 list \<Rightarrow> nat list \<Rightarrow> u64 list \<Rightarrow> u64 list" where
  "round m s v =
     (let v = G v 0 4 8 12 (m ! (s ! 0)) (m ! (s ! 1));
          v = G v 1 5 9 13 (m ! (s ! 2)) (m ! (s ! 3));
          v = G v 2 6 10 14 (m ! (s ! 4)) (m ! (s ! 5));
          v = G v 3 7 11 15 (m ! (s ! 6)) (m ! (s ! 7));
          v = G v 0 5 10 15 (m ! (s ! 8)) (m ! (s ! 9));
          v = G v 1 6 11 12 (m ! (s ! 10)) (m ! (s ! 11));
          v = G v 2 7 8 13 (m ! (s ! 12)) (m ! (s ! 13));
          v = G v 3 4 9 14 (m ! (s ! 14)) (m ! (s ! 15))
      in v)"

text \<open>Twelve rounds; round \<open>i\<close> uses row \<open>i mod 10\<close> of the table.\<close>

definition rounds :: "u64 list \<Rightarrow> u64 list \<Rightarrow> u64 list" where
  "rounds m v = foldl (\<lambda>v i. round m (blake2b_sigma ! (i mod 10)) v) v [0..<12]"

definition init_work :: "u64 list \<Rightarrow> nat \<Rightarrow> bool \<Rightarrow> u64 list" where
  "init_work h t f =
     (let v = h @ blake2b_IV;
          v = v[12 := v ! 12 XOR of_nat (t mod 2 ^ 64)];
          v = v[13 := v ! 13 XOR of_nat (t div 2 ^ 64)]
      in if f then v[14 := v ! 14 XOR 0xFFFFFFFFFFFFFFFF] else v)"

text \<open>The compression function \<open>F\<close>: state \<open>h\<close>, message block \<open>m\<close> of sixteen words, byte
  counter \<open>t\<close>, final-block flag \<open>f\<close>.\<close>

definition F :: "u64 list \<Rightarrow> u64 list \<Rightarrow> nat \<Rightarrow> bool \<Rightarrow> u64 list" where
  "F h m t f =
     (let v = rounds m (init_work h t f)
      in map (\<lambda>i. h ! i XOR v ! i XOR v ! (i + 8)) [0..<8])"

text \<open>Little-endian loads and stores.\<close>

definition load64 :: "pybytes \<Rightarrow> u64" where
  "load64 bs = foldr (\<lambda>b w. ucast b OR push_bit 8 w) (take 8 bs) 0"

fun words_of :: "nat \<Rightarrow> pybytes \<Rightarrow> u64 list" where
  "words_of 0 bs = []"
| "words_of (Suc n) bs = load64 bs # words_of n (drop 8 bs)"

definition store64 :: "u64 \<Rightarrow> pybytes" where
  "store64 w = map (\<lambda>i. ucast (drop_bit (8 * i) w)) [0..<8]"

text \<open>
  The parameter block of the constructor: 64 bytes, of which \<^verbatim>\<open>hashlib\<close> sets the digest
  length, the key length (0 without a key), the fanout (1) and the depth (1); the leaf
  length, node offset, node depth, inner length, salt and personalisation stay zero. The
  initial state is the initialisation vector XORed with the block, word by word.
\<close>

definition param_block :: "nat \<Rightarrow> pybytes" where
  "param_block digest_size = [of_nat digest_size, 0, 1, 1] @ replicate 60 0"

definition blake2b_init :: "nat \<Rightarrow> u64 list" where
  "blake2b_init digest_size =
     map2 (XOR) blake2b_IV (words_of 8 (param_block digest_size))"

text \<open>
  Every block but the last is compressed with the counter advanced by 128 and the flag
  clear; the last block, also when it is full or the data is empty, is padded with zeros
  and compressed with the flag set.
\<close>

function blake2b_absorb :: "u64 list \<Rightarrow> nat \<Rightarrow> pybytes \<Rightarrow> u64 list" where
  "blake2b_absorb h t bs =
     (if 128 < length bs
      then blake2b_absorb (F h (words_of 16 (take 128 bs)) (t + 128) False) (t + 128)
             (drop 128 bs)
      else F h (words_of 16 (bs @ replicate (128 - length bs) 0)) (t + length bs) True)"
  by pat_completeness auto
termination
  by (relation "measure (\<lambda>(h, t, bs). length bs)") auto

declare blake2b_absorb.simps [simp del]

definition blake2b_digest :: "pybytes \<Rightarrow> nat \<Rightarrow> pybytes" where
  "blake2b_digest data digest_size =
     take digest_size
       (concat (map store64 (blake2b_absorb (blake2b_init digest_size) 0 data)))"

text \<open>The constructor raises \<^verbatim>\<open>ValueError\<close> (\<^verbatim>\<open>digest_size must be between 1 and 64 bytes\<close>)
  on any other size.\<close>

definition blake2b :: "pybytes \<Rightarrow> nat \<Rightarrow> error + pybytes" where
  "blake2b data digest_size =
     (if 1 \<le> digest_size \<and> digest_size \<le> 64 then Inr (blake2b_digest data digest_size)
      else Inl ValueError)"

text \<open>\<^verbatim>\<open>hexdigest()\<close>: two characters of \<^verbatim>\<open>0123456789abcdef\<close> per byte, high nibble first.\<close>

definition hexdigits :: pystr where
  "hexdigits = str ''0123456789abcdef''"

definition hexdigest :: "pybytes \<Rightarrow> pystr" where
  "hexdigest bs =
     concat (map (\<lambda>b. [hexdigits ! unat (drop_bit 4 b), hexdigits ! unat (b AND 15)]) bs)"

section \<open>The script\<close>

definition CONTAINERS :: "pystr list" where
  "CONTAINERS =
     [str ''C.Messenger'', str ''C.Jobs'', str ''C.Office'', str ''C.Policy'',
      str ''C.Runner'']"

definition h32 :: "pystr \<Rightarrow> error + pystr" where
  "h32 s =
     (case str_encode s of
        Inl e \<Rightarrow> Inl e
      | Inr bs \<Rightarrow>
          (case blake2b bs 16 of
             Inl e \<Rightarrow> Inl e
           | Inr digest \<Rightarrow> Inr (hexdigest digest)))"

text \<open>
  The dictionary \<^verbatim>\<open>out\<close>. A Python \<^verbatim>\<open>dict\<close> keeps its keys in insertion order; storing
  under a key it already holds replaces the value and leaves the key where it is.
\<close>

type_synonym pydict = "(pystr \<times> pystr) list"

fun dict_setitem :: "pydict \<Rightarrow> pystr \<Rightarrow> pystr \<Rightarrow> pydict" where
  "dict_setitem [] k v = [(k, v)]"
| "dict_setitem ((k', v') # d) k v =
     (if k' = k then (k', v) # d else (k', v') # dict_setitem d k v)"

text \<open>The comprehension \<^verbatim>\<open>{ name: h32(name) for name in CONTAINERS }\<close>: one pass over the
  list, in its order; an exception of \<^verbatim>\<open>h32\<close> ends it.\<close>

fun dict_comp :: "pystr list \<Rightarrow> pydict \<Rightarrow> error + pydict" where
  "dict_comp [] d = Inr d"
| "dict_comp (name # names) d =
     (case h32 name of
        Inl e \<Rightarrow> Inl e
      | Inr v \<Rightarrow> dict_comp names (dict_setitem d name v))"

definition out :: "error + pydict" where
  "out = dict_comp CONTAINERS []"

section \<open>\<^verbatim>\<open>json.dump\<close>\<close>

text \<open>
  \<^verbatim>\<open>json.dump(out, sys.stdout, indent=2)\<close> keeps \<^verbatim>\<open>ensure_ascii=True\<close>, so a string is
  written between double quotes with the backslash, the double quote and every character
  outside the printable ASCII range escaped; a character above U+FFFF becomes a
  surrogate pair of escapes. \<^verbatim>\<open>'{0:04x}'.format(n)\<close> gives four lowercase hexadecimal
  digits for \<open>n < 65536\<close>.
\<close>

definition hex4 :: "nat \<Rightarrow> pystr" where
  "hex4 n =
     [hexdigits ! (n div 4096 mod 16), hexdigits ! (n div 256 mod 16),
      hexdigits ! (n div 16 mod 16), hexdigits ! (n mod 16)]"

definition u_escape :: "nat \<Rightarrow> pystr" where
  "u_escape n = [CodePoint 92, CodePoint 117] @ hex4 n"

definition escape_char :: "codepoint \<Rightarrow> pystr" where
  "escape_char c =
     (let n = ord c in
      if n = 92 then [CodePoint 92, CodePoint 92]
      else if n = 34 then [CodePoint 92, CodePoint 34]
      else if n = 8 then [CodePoint 92, CodePoint 98]
      else if n = 12 then [CodePoint 92, CodePoint 102]
      else if n = 10 then [CodePoint 92, CodePoint 110]
      else if n = 13 then [CodePoint 92, CodePoint 114]
      else if n = 9 then [CodePoint 92, CodePoint 116]
      else if 32 \<le> n \<and> n \<le> 126 then [c]
      else if n < 65536 then u_escape n
      else u_escape (55296 OR (drop_bit 10 (n - 65536) AND 1023))
           @ u_escape (56320 OR ((n - 65536) AND 1023)))"

definition encode_basestring_ascii :: "pystr \<Rightarrow> pystr" where
  "encode_basestring_ascii s = [CodePoint 34] @ concat (map escape_char s) @ [CodePoint 34]"

text \<open>
  The encoder yields the text in chunks. With an indent the item separator is a comma
  followed by a newline and the indentation of the level, and the key separator is a
  colon and a space. An empty dictionary is the one chunk \<^verbatim>\<open>{}\<close>.
\<close>

definition newline_indent :: "nat \<Rightarrow> nat \<Rightarrow> pystr" where
  "newline_indent indent level = CodePoint 10 # replicate (indent * level) (CodePoint 32)"

fun iterencode_items :: "pystr \<Rightarrow> bool \<Rightarrow> pydict \<Rightarrow> pystr list" where
  "iterencode_items item_separator first [] = []"
| "iterencode_items item_separator first ((k, v) # d) =
     (if first then [] else [item_separator])
     @ [encode_basestring_ascii k, str '': '', encode_basestring_ascii v]
     @ iterencode_items item_separator False d"

definition iterencode_dict :: "nat \<Rightarrow> pydict \<Rightarrow> nat \<Rightarrow> pystr list" where
  "iterencode_dict indent dct level =
     (if dct = [] then [str ''{}'']
      else [str ''{'', newline_indent indent (level + 1)]
           @ iterencode_items (str '','' @ newline_indent indent (level + 1)) True dct
           @ [newline_indent indent level, str ''}''])"

text \<open>\<^verbatim>\<open>json.dump\<close> writes every chunk to the file object, one after the other; the file
  object is the text written to it so far.\<close>

definition json_dump :: "pydict \<Rightarrow> pystr \<Rightarrow> nat \<Rightarrow> pystr" where
  "json_dump obj fp indent = foldl (\<lambda>fp chunk. fp @ chunk) fp (iterencode_dict indent obj 0)"

section \<open>The process\<close>

text \<open>
  What a run can see: its arguments, its environment, the files present, and the text
  written to standard output so far. The script reads none of the first three. An
  exception of the comprehension is not caught, and nothing is written then.
\<close>

record process =
  argv :: "pystr list"
  environ :: "(pystr \<times> pystr) list"
  files :: "(pystr \<times> pybytes) list"
  stdout :: pystr

definition main :: "process \<Rightarrow> error + process" where
  "main p =
     (case out of
        Inl e \<Rightarrow> Inl e
      | Inr d \<Rightarrow> Inr (p\<lparr>stdout := json_dump d (stdout p) 2\<rparr>))"

section \<open>Calls and their effects\<close>

text \<open>
  A call runs in the process: it gives a value or raises, and it leaves the process in
  some state. None of the three library calls of \<^verbatim>\<open>h32\<close> touches the process:
  \<^verbatim>\<open>s.encode()\<close> builds a new \<^verbatim>\<open>bytes\<close> object, the \<^verbatim>\<open>blake2b\<close> constructor a new hash object
  that no other code holds, and \<^verbatim>\<open>hexdigest()\<close> a new string. \<^verbatim>\<open>sys.stdout.write\<close> does: it
  adds its text to standard output.
\<close>

type_synonym 'a call = "process \<Rightarrow> (error + 'a) \<times> process"

definition call_then :: "'a call \<Rightarrow> ('a \<Rightarrow> 'b call) \<Rightarrow> 'b call" where
  "call_then m f p =
     (case m p of
        (Inl e, p') \<Rightarrow> (Inl e, p')
      | (Inr x, p') \<Rightarrow> f x p')"

definition encode_call :: "pystr \<Rightarrow> pybytes call" where
  "encode_call s p = (str_encode s, p)"

definition blake2b_call :: "pybytes \<Rightarrow> nat \<Rightarrow> pybytes call" where
  "blake2b_call data digest_size p = (blake2b data digest_size, p)"

definition hexdigest_call :: "pybytes \<Rightarrow> pystr call" where
  "hexdigest_call digest p = (Inr (hexdigest digest), p)"

definition write_call :: "pystr \<Rightarrow> unit call" where
  "write_call chunk p = (Inr (), p\<lparr>stdout := stdout p @ chunk\<rparr>)"

text \<open>The body of \<^verbatim>\<open>h32\<close>, call by call.\<close>

definition h32_call :: "pystr \<Rightarrow> pystr call" where
  "h32_call s =
     call_then (encode_call s) (\<lambda>bs.
     call_then (blake2b_call bs 16) (\<lambda>digest.
     hexdigest_call digest))"

text \<open>The two statements of the script, call by call: the comprehension calls \<^verbatim>\<open>h32\<close>
  for every name, and \<^verbatim>\<open>json.dump\<close> writes every chunk.\<close>

fun comp_call :: "pystr list \<Rightarrow> pydict \<Rightarrow> pydict call" where
  "comp_call [] d = (\<lambda>p. (Inr d, p))"
| "comp_call (name # names) d =
     call_then (h32_call name) (\<lambda>v. comp_call names (dict_setitem d name v))"

fun write_all :: "pystr list \<Rightarrow> unit call" where
  "write_all [] = (\<lambda>p. (Inr (), p))"
| "write_all (chunk # chunks) = call_then (write_call chunk) (\<lambda>_. write_all chunks)"

definition main_call :: "unit call" where
  "main_call =
     call_then (comp_call CONTAINERS []) (\<lambda>d. write_all (iterencode_dict 2 d 0))"

section \<open>Standard output as bytes\<close>







section \<open>The Identifier Deriver as the specification states it\<close>

text \<open>
  The reference pipeline of the specification: the UTF-8 encoding of the name (RFC 3629:
  one to four bytes by the range of the scalar value, and no encoding for a surrogate),
  BLAKE2b with a 16-byte digest and no key (RFC 7693: the first state word is XORed with
  \<open>0x01010000 + nn\<close>), and the digest rendered in lowercase hexadecimal, two digits per
  byte. It is compared with \<open>h32\<close> below.
\<close>

definition utf8_scalar :: "nat \<Rightarrow> pybytes" where
  "utf8_scalar n =
     (if n < 128 then [of_nat n]
      else if n < 2048 then [of_nat (192 + n div 64), of_nat (128 + n mod 64)]
      else if n < 65536 then
        [of_nat (224 + n div 4096), of_nat (128 + n div 64 mod 64), of_nat (128 + n mod 64)]
      else
        [of_nat (240 + n div 262144), of_nat (128 + n div 4096 mod 64),
         of_nat (128 + n div 64 mod 64), of_nat (128 + n mod 64)])"

definition utf8_encoding :: "pystr \<Rightarrow> pybytes option" where
  "utf8_encoding s =
     (if list_ex is_surrogate s then None
      else Some (concat (map (\<lambda>c. utf8_scalar (ord c)) s)))"

definition blake2b_rfc :: "nat \<Rightarrow> pybytes \<Rightarrow> pybytes" where
  "blake2b_rfc nn d =
     (let h = blake2b_IV[0 := blake2b_IV ! 0 XOR 0x01010000 XOR of_nat nn]
      in take nn (concat (map store64 (blake2b_absorb h 0 d))))"

definition lowercase_hex_digit :: "nat \<Rightarrow> codepoint" where
  "lowercase_hex_digit d = CodePoint (if d < 10 then 48 + d else 87 + d)"

definition lowercase_hex :: "pybytes \<Rightarrow> pystr" where
  "lowercase_hex bs =
     concat (map (\<lambda>b. [lowercase_hex_digit (unat b div 16),
                        lowercase_hex_digit (unat b mod 16)]) bs)"

definition identifier_spec :: "pystr \<Rightarrow> pystr option" where
  "identifier_spec s =
     map_option (\<lambda>bs. lowercase_hex (blake2b_rfc 16 bs)) (utf8_encoding s)"

text \<open>The pattern of an identifier: a character of \<^verbatim>\<open>0-9\<close> or \<^verbatim>\<open>a-f\<close>.\<close>

definition is_lower_hex :: "codepoint \<Rightarrow> bool" where
  "is_lower_hex c = ((48 \<le> ord c \<and> ord c \<le> 57) \<or> (97 \<le> ord c \<and> ord c \<le> 102))"

text \<open>
  The document of the specification: an object of string members, one member per line
  behind two spaces, a comma after every member but the last, the braces on lines of
  their own, the lines joined by newlines with none after the last.
\<close>

fun member_lines :: "pydict \<Rightarrow> pystr list" where
  "member_lines [] = []"
| "member_lines [(k, v)] =
     [str ''  '' @ encode_basestring_ascii k @ str '': '' @ encode_basestring_ascii v]"
| "member_lines ((k, v) # m # d) =
     (str ''  '' @ encode_basestring_ascii k @ str '': '' @ encode_basestring_ascii v
        @ str '','')
     # member_lines (m # d)"

fun join_lines :: "pystr list \<Rightarrow> pystr" where
  "join_lines [] = []"
| "join_lines [l] = l"
| "join_lines (l # m # ls) = l @ CodePoint 10 # join_lines (m # ls)"

definition indented_object :: "pydict \<Rightarrow> pystr" where
  "indented_object d =
     (if d = [] then str ''{}''
      else join_lines ([str ''{''] @ member_lines d @ [str ''}'']))"

section \<open>Evaluating the compression function\<close>

text \<open>\<open>G\<close> reads and writes four words of the work vector; \<open>mix\<close> is \<open>G\<close> on those four
  words alone.\<close>

definition mix :: "u64 \<Rightarrow> u64 \<Rightarrow> u64 \<Rightarrow> u64 \<Rightarrow> u64 \<Rightarrow> u64 \<Rightarrow> u64 \<times> u64 \<times> u64 \<times> u64" where
  "mix a b c d x y =
     (let a = a + b + x; d = rotr64 (d XOR a) 32; c = c + d; b = rotr64 (b XOR c) 24;
          a = a + b + y; d = rotr64 (d XOR a) 16; c = c + d; b = rotr64 (b XOR c) 63
      in (a, b, c, d))"

section \<open>Kernel evaluation of the 64-bit operations\<close>

text \<open>
  The digests of the five names are computed by rewriting, inside the kernel. The
  simplifier does not reduce a word numeral modulo \<open>2 ^ 64\<close> by itself, so the rules below
  send addition, exclusive or and rotation of 64-bit numerals to the same operations on
  natural numbers, truncated to 64 bits, where the library evaluates them digit by digit.
  The twelve rounds are unfolded once, for an arbitrary message block, into their 96
  applications of \<open>G\<close>.
\<close>

lemma upt_8: "[0..<8] = [0, 1, 2, 3, 4, 5, 6, 7::nat]"
  by code_simp

lemma replicate_eval:
  "replicate (numeral k) x = x # replicate (pred_numeral k) x"
  by (simp add: numeral_eq_Suc)

lemma words_of_8:
  "words_of 8 bs =
     [load64 bs, load64 (drop 8 bs), load64 (drop 16 bs), load64 (drop 24 bs),
      load64 (drop 32 bs), load64 (drop 40 bs), load64 (drop 48 bs), load64 (drop 56 bs)]"
  by (simp add: eval_nat_numeral)

lemma words_of_16:
  "words_of 16 bs =
     [load64 bs, load64 (drop 8 bs), load64 (drop 16 bs), load64 (drop 24 bs),
      load64 (drop 32 bs), load64 (drop 40 bs), load64 (drop 48 bs), load64 (drop 56 bs),
      load64 (drop 64 bs), load64 (drop 72 bs), load64 (drop 80 bs), load64 (drop 88 bs),
      load64 (drop 96 bs), load64 (drop 104 bs), load64 (drop 112 bs),
      load64 (drop 120 bs)]"
  by (simp add: eval_nat_numeral)

lemma G_eval0:
  "G [v0, v1, v2, v3, v4, v5, v6, v7, v8, v9, v10, v11, v12, v13, v14, v15] 0 4 8 12 x y =
     (case mix v0 v4 v8 v12 x y of
        (a, b, c, d) \<Rightarrow>
          [a, v1, v2, v3, b, v5, v6, v7, c, v9, v10, v11, d, v13, v14, v15])"
  by (simp add: G_def mix_def Let_def)

lemma G_eval1:
  "G [v0, v1, v2, v3, v4, v5, v6, v7, v8, v9, v10, v11, v12, v13, v14, v15] 1 5 9 13 x y =
     (case mix v1 v5 v9 v13 x y of
        (a, b, c, d) \<Rightarrow>
          [v0, a, v2, v3, v4, b, v6, v7, v8, c, v10, v11, v12, d, v14, v15])"
  by (simp add: G_def mix_def Let_def)

lemma G_eval2:
  "G [v0, v1, v2, v3, v4, v5, v6, v7, v8, v9, v10, v11, v12, v13, v14, v15] 2 6 10 14 x y =
     (case mix v2 v6 v10 v14 x y of
        (a, b, c, d) \<Rightarrow>
          [v0, v1, a, v3, v4, v5, b, v7, v8, v9, c, v11, v12, v13, d, v15])"
  by (simp add: G_def mix_def Let_def)

lemma G_eval3:
  "G [v0, v1, v2, v3, v4, v5, v6, v7, v8, v9, v10, v11, v12, v13, v14, v15] 3 7 11 15 x y =
     (case mix v3 v7 v11 v15 x y of
        (a, b, c, d) \<Rightarrow>
          [v0, v1, v2, a, v4, v5, v6, b, v8, v9, v10, c, v12, v13, v14, d])"
  by (simp add: G_def mix_def Let_def)

lemma G_eval4:
  "G [v0, v1, v2, v3, v4, v5, v6, v7, v8, v9, v10, v11, v12, v13, v14, v15] 0 5 10 15 x y =
     (case mix v0 v5 v10 v15 x y of
        (a, b, c, d) \<Rightarrow>
          [a, v1, v2, v3, v4, b, v6, v7, v8, v9, c, v11, v12, v13, v14, d])"
  by (simp add: G_def mix_def Let_def)

lemma G_eval5:
  "G [v0, v1, v2, v3, v4, v5, v6, v7, v8, v9, v10, v11, v12, v13, v14, v15] 1 6 11 12 x y =
     (case mix v1 v6 v11 v12 x y of
        (a, b, c, d) \<Rightarrow>
          [v0, a, v2, v3, v4, v5, b, v7, v8, v9, v10, c, d, v13, v14, v15])"
  by (simp add: G_def mix_def Let_def)

lemma G_eval6:
  "G [v0, v1, v2, v3, v4, v5, v6, v7, v8, v9, v10, v11, v12, v13, v14, v15] 2 7 8 13 x y =
     (case mix v2 v7 v8 v13 x y of
        (a, b, c, d) \<Rightarrow>
          [v0, v1, a, v3, v4, v5, v6, b, c, v9, v10, v11, v12, d, v14, v15])"
  by (simp add: G_def mix_def Let_def)

lemma G_eval7:
  "G [v0, v1, v2, v3, v4, v5, v6, v7, v8, v9, v10, v11, v12, v13, v14, v15] 3 4 9 14 x y =
     (case mix v3 v4 v9 v14 x y of
        (a, b, c, d) \<Rightarrow>
          [v0, v1, v2, a, b, v5, v6, v7, v8, c, v10, v11, v12, v13, d, v15])"
  by (simp add: G_def mix_def Let_def)

lemma add64_num:
  "(numeral a :: u64) + numeral b = of_nat (take_bit 64 (numeral a + numeral b))"
proof -
  have h: "(of_nat (take_bit 64 n) :: u64) = of_nat n" for n :: nat
    by (simp add: word_of_nat_eq_iff)
  show ?thesis by (simp only: h of_nat_add of_nat_numeral)
qed

lemma xor64_num:
  "(numeral a :: u64) XOR numeral b = of_nat (numeral a XOR numeral b)"
  by (simp add: of_nat_xor_eq)

lemma rotr64_of_nat:
  assumes "c \<le> 64"
  shows "rotr64 (of_nat n) c =
    of_nat (take_bit (64 - c) (drop_bit c n) OR push_bit (64 - c) (take_bit c n))"
  using assms
  by (intro bit_word_eqI) (auto simp: rotr64_def bit_simps)

lemma rotr64_num:
  "rotr64 (numeral a) 32 =
     of_nat (take_bit 32 (drop_bit 32 (numeral a)) OR push_bit 32 (take_bit 32 (numeral a)))"
  "rotr64 (numeral a) 24 =
     of_nat (take_bit 40 (drop_bit 24 (numeral a)) OR push_bit 40 (take_bit 24 (numeral a)))"
  "rotr64 (numeral a) 16 =
     of_nat (take_bit 48 (drop_bit 16 (numeral a)) OR push_bit 48 (take_bit 16 (numeral a)))"
  "rotr64 (numeral a) 63 =
     of_nat (take_bit (numeral num.One) (drop_bit 63 (numeral a))
             OR push_bit (numeral num.One) (take_bit 63 (numeral a)))"
  using rotr64_of_nat [of 32 "numeral a"] rotr64_of_nat [of 24 "numeral a"]
    rotr64_of_nat [of 16 "numeral a"] rotr64_of_nat [of 63 "numeral a"]
  by simp_all

lemma nat_num_rules:
  "(numeral a :: nat) + numeral b = numeral (a + b)"
  "(numeral a :: nat) XOR numeral b = (case xor_num a b of None \<Rightarrow> 0 | Some n \<Rightarrow> numeral n)"
  "(numeral a :: nat) OR numeral b = numeral (or_num a b)"
  "(0 :: nat) OR n = n"
  "n OR (0 :: nat) = n"
  "drop_bit (numeral l) (numeral num.One :: nat) = 0"
  "drop_bit 0 n = n"
  "drop_bit k (0 :: nat) = 0"
  "push_bit 0 n = n"
  "push_bit k (0 :: nat) = 0"
  "take_bit k (0 :: nat) = 0"
  "take_bit 0 n = 0"
  "(of_nat 0 :: u64) = 0"
  "(of_nat (numeral a) :: u64) = numeral a"
  by (simp_all add: numeral_xor_num numeral_or_num)

lemma word_zero_rules:
  "(0 :: u64) + w = w"
  "w + (0 :: u64) = w"
  "(0 :: u64) XOR w = w"
  "w XOR (0 :: u64) = w"
  "rotr64 0 c = 0"
  by (simp_all add: rotr64_def)

lemmas eval64 =
  mix_def Let_def prod.case option.case option.map
  add64_num xor64_num rotr64_num nat_num_rules word_zero_rules
  add_num_simps xor_num.simps or_num.simps
  take_bit_numeral_numeral [where 'a = nat] take_bit_num_simps pred_numeral_simps BitM.simps
  drop_bit_numeral_bit0 [where 'a = nat] drop_bit_numeral_bit1 [where 'a = nat]
  push_bit_numeral [where 'a = nat]
  G_eval0 G_eval1 G_eval2 G_eval3 G_eval4 G_eval5 G_eval6 G_eval7

lemma rounds_expand:
  "rounds [m0, m1, m2, m3, m4, m5, m6, m7, m8, m9, m10, m11, m12, m13, m14, m15] v =
     G (G (G (G (G (G (G (G (G (G (G (G (G (G (G (G (G (G (G (G (G (G (G (G (G (G (G (G (G (G
     (G (G (G (G (G (G (G (G (G (G (G (G (G (G (G (G (G (G (G (G (G (G (G (G (G (G (G (G (G
     (G (G (G (G (G (G (G (G (G (G (G (G (G (G (G (G (G (G (G (G (G (G (G (G (G (G (G (G (G
     (G (G (G (G (G (G (G (
       G v 0 4 8 12 m0 m1)
       1 5 9 13 m2 m3)
       2 6 10 14 m4 m5)
       3 7 11 15 m6 m7)
       0 5 10 15 m8 m9)
       1 6 11 12 m10 m11)
       2 7 8 13 m12 m13)
       3 4 9 14 m14 m15)
       0 4 8 12 m14 m10)
       1 5 9 13 m4 m8)
       2 6 10 14 m9 m15)
       3 7 11 15 m13 m6)
       0 5 10 15 m1 m12)
       1 6 11 12 m0 m2)
       2 7 8 13 m11 m7)
       3 4 9 14 m5 m3)
       0 4 8 12 m11 m8)
       1 5 9 13 m12 m0)
       2 6 10 14 m5 m2)
       3 7 11 15 m15 m13)
       0 5 10 15 m10 m14)
       1 6 11 12 m3 m6)
       2 7 8 13 m7 m1)
       3 4 9 14 m9 m4)
       0 4 8 12 m7 m9)
       1 5 9 13 m3 m1)
       2 6 10 14 m13 m12)
       3 7 11 15 m11 m14)
       0 5 10 15 m2 m6)
       1 6 11 12 m5 m10)
       2 7 8 13 m4 m0)
       3 4 9 14 m15 m8)
       0 4 8 12 m9 m0)
       1 5 9 13 m5 m7)
       2 6 10 14 m2 m4)
       3 7 11 15 m10 m15)
       0 5 10 15 m14 m1)
       1 6 11 12 m11 m12)
       2 7 8 13 m6 m8)
       3 4 9 14 m3 m13)
       0 4 8 12 m2 m12)
       1 5 9 13 m6 m10)
       2 6 10 14 m0 m11)
       3 7 11 15 m8 m3)
       0 5 10 15 m4 m13)
       1 6 11 12 m7 m5)
       2 7 8 13 m15 m14)
       3 4 9 14 m1 m9)
       0 4 8 12 m12 m5)
       1 5 9 13 m1 m15)
       2 6 10 14 m14 m13)
       3 7 11 15 m4 m10)
       0 5 10 15 m0 m7)
       1 6 11 12 m6 m3)
       2 7 8 13 m9 m2)
       3 4 9 14 m8 m11)
       0 4 8 12 m13 m11)
       1 5 9 13 m7 m14)
       2 6 10 14 m12 m1)
       3 7 11 15 m3 m9)
       0 5 10 15 m5 m0)
       1 6 11 12 m15 m4)
       2 7 8 13 m8 m6)
       3 4 9 14 m2 m10)
       0 4 8 12 m6 m15)
       1 5 9 13 m14 m9)
       2 6 10 14 m11 m3)
       3 7 11 15 m0 m8)
       0 5 10 15 m12 m2)
       1 6 11 12 m13 m7)
       2 7 8 13 m1 m4)
       3 4 9 14 m10 m5)
       0 4 8 12 m10 m2)
       1 5 9 13 m8 m4)
       2 6 10 14 m7 m6)
       3 7 11 15 m1 m5)
       0 5 10 15 m15 m11)
       1 6 11 12 m9 m14)
       2 7 8 13 m3 m12)
       3 4 9 14 m13 m0)
       0 4 8 12 m0 m1)
       1 5 9 13 m2 m3)
       2 6 10 14 m4 m5)
       3 7 11 15 m6 m7)
       0 5 10 15 m8 m9)
       1 6 11 12 m10 m11)
       2 7 8 13 m12 m13)
       3 4 9 14 m14 m15)
       0 4 8 12 m14 m10)
       1 5 9 13 m4 m8)
       2 6 10 14 m9 m15)
       3 7 11 15 m13 m6)
       0 5 10 15 m1 m12)
       1 6 11 12 m0 m2)
       2 7 8 13 m11 m7)
       3 4 9 14 m5 m3"
proof -
  have u: "[0..<12] = [0, 1, 2, 3, 4, 5, 6, 7, 8, 9, 10, 11::nat]"
    by code_simp
  show ?thesis
    by (simp add: rounds_def u round_def blake2b_sigma_def Let_def)
qed

lemma blake2b_init_16:
  "blake2b_init 16 =
     [7640891576939301144, 13503953896175478587, 4354685564936845355, 11912009170470909681,
       5840696475078001361, 11170449401992604703, 2270897969802886507, 6620516959819538809]"
  by (simp add: blake2b_init_def param_block_def blake2b_IV_def words_of_8 load64_def replicate_eval)

lemma blake2b_16: "blake2b bs 16 = Inr (blake2b_digest bs 16)"
  by (simp add: blake2b_def)

lemma blake2b_absorb_last:
  "length bs \<le> 128 \<Longrightarrow>
   blake2b_absorb h 0 bs =
     F h (words_of 16 (bs @ replicate (128 - length bs) 0)) (length bs) True"
  by (simp add: blake2b_absorb.simps)

section \<open>The five identifiers\<close>

text \<open>
  For each name: the twelve rounds on its one padded block, the compression of that
  block, and the identifier. Every name is shorter than a block, so each is hashed by a
  single final compression.
\<close>

lemma rounds_Messenger:
  "rounds
     [7954891256277839427, 7497063, 0, 0, 0, 0, 0, 0, 0, 0, 0, 0, 0, 0, 0, 0]
     [7640891576939301144, 13503953896175478587, 4354685564936845355, 11912009170470909681,
       5840696475078001361, 11170449401992604703, 2270897969802886507, 6620516959819538809,
       7640891576956012808, 13503953896175478587, 4354685564936845355, 11912009170470909681,
       5840696475078001370, 11170449401992604703, 16175846103906665108, 6620516959819538809] =
     [16574915675640518791, 11477932627918195463, 8320981926166699037, 13346706271781818114,
       3301852470836403865, 2205486430966451504, 17155000636533971223, 15443690579409573784,
       13232871603289222409, 3432540728215665512, 2832850996208933868, 16955851838421509962,
       10616460106048674164, 16557059430042111750, 14022793649633593572, 13439461699812238834]"
  by (simp only: rounds_expand eval64 cong: let_weak_cong option.case_cong_weak)

lemma F_Messenger:
  "F [7640891576939301144, 13503953896175478587, 4354685564936845355, 11912009170470909681,
       5840696475078001361, 11170449401992604703, 2270897969802886507, 6620516959819538809]
     [7954891256277839427, 7497063, 0, 0, 0, 0, 0, 0, 0, 0, 0, 0, 0, 0, 0, 0] 11 True =
     [4298845301400075414, 832240103760746324, 7513320790472622042, 17814475343299419833,
       17260578957245711676, 6942408095955709481, 3678296427042647192, 3977031332604252947]"
proof -
  have v: "init_work
      [7640891576939301144, 13503953896175478587, 4354685564936845355, 11912009170470909681,
       5840696475078001361, 11170449401992604703, 2270897969802886507, 6620516959819538809] 11 True =
      [7640891576939301144, 13503953896175478587, 4354685564936845355, 11912009170470909681,
       5840696475078001361, 11170449401992604703, 2270897969802886507, 6620516959819538809,
       7640891576956012808, 13503953896175478587, 4354685564936845355, 11912009170470909681,
       5840696475078001370, 11170449401992604703, 16175846103906665108, 6620516959819538809]"
    by (simp add: init_work_def blake2b_IV_def)
  show ?thesis
    by (simp add: F_def v rounds_Messenger upt_8 Let_def)
qed

lemma h32_Messenger:
  "h32 (str ''C.Messenger'') = Inr (str ''96fc4e7e0691a83b54577e08f7b58c0b'')"
proof -
  have e: "str_encode (str ''C.Messenger'') =
      Inr [67, 46, 77, 101, 115, 115, 101, 110, 103, 101, 114]"
    by (simp add: str_def CodePoint_inverse is_surrogate_def utf8_char_def)
  have w: "words_of 16 ([67, 46, 77, 101, 115, 115, 101, 110, 103, 101, 114] @ replicate (128 - 11) 0) =
      [7954891256277839427, 7497063, 0, 0, 0, 0, 0, 0, 0, 0, 0, 0, 0, 0, 0, 0]"
    by (simp add: words_of_16 load64_def replicate_eval)
  have l: "length [67, 46, 77, 101, 115, 115, 101, 110, 103, 101, 114] = 11"
    by simp
  have le: "length [67, 46, 77, 101, 115, 115, 101, 110, 103, 101, 114] \<le> 128"
    by simp
  have a: "blake2b_absorb (blake2b_init 16) 0 [67, 46, 77, 101, 115, 115, 101, 110, 103, 101, 114] =
      [4298845301400075414, 832240103760746324, 7513320790472622042, 17814475343299419833,
       17260578957245711676, 6942408095955709481, 3678296427042647192, 3977031332604252947]"
    by (simp only: blake2b_absorb_last [OF le] l w blake2b_init_16 F_Messenger)
  have d: "blake2b_digest [67, 46, 77, 101, 115, 115, 101, 110, 103, 101, 114] 16 =
      [150, 252, 78, 126, 6, 145, 168, 59, 84, 87, 126, 8, 247, 181, 140, 11]"
    by (simp add: blake2b_digest_def a store64_def upt_8)
  have x: "hexdigest
      [150, 252, 78, 126, 6, 145, 168, 59, 84, 87, 126, 8, 247, 181, 140, 11] =
      str ''96fc4e7e0691a83b54577e08f7b58c0b''"
    by (simp add: hexdigest_def hexdigits_def str_def)
  show ?thesis
    by (simp add: h32_def blake2b_16 e d x)
qed

lemma rounds_Jobs:
  "rounds
     [126866611121731, 0, 0, 0, 0, 0, 0, 0, 0, 0, 0, 0, 0, 0, 0, 0]
     [7640891576939301144, 13503953896175478587, 4354685564936845355, 11912009170470909681,
       5840696475078001361, 11170449401992604703, 2270897969802886507, 6620516959819538809,
       7640891576956012808, 13503953896175478587, 4354685564936845355, 11912009170470909681,
       5840696475078001367, 11170449401992604703, 16175846103906665108, 6620516959819538809] =
     [1721117981160218165, 134415495811213002, 11915651688801871110, 17984764569214807472,
       4245081768305071833, 2139826468258970452, 11091142368149793710, 16867762110010148210,
       13456257146395947124, 2460141910049041458, 13016505037568004866, 16090361021108625504,
       17203471324086350199, 643486981545667634, 1457899482754347485, 11523431146452015576]"
  by (simp only: rounds_expand eval64 cong: let_weak_cong option.case_cong_weak)

lemma F_Jobs:
  "F [7640891576939301144, 13503953896175478587, 4354685564936845355, 11912009170470909681,
       5840696475078001361, 11170449401992604703, 2270897969802886507, 6620516959819538809]
     [126866611121731, 0, 0, 0, 0, 0, 0, 0, 0, 0, 0, 0, 0, 0, 0, 0] 6 True =
     [14363526620622858073, 10997239037586976195, 3283686222426770991, 9481554091272436513,
       9608675110447752575, 10257361953620867961, 10543772567365723928, 3323070274521087443]"
proof -
  have v: "init_work
      [7640891576939301144, 13503953896175478587, 4354685564936845355, 11912009170470909681,
       5840696475078001361, 11170449401992604703, 2270897969802886507, 6620516959819538809] 6 True =
      [7640891576939301144, 13503953896175478587, 4354685564936845355, 11912009170470909681,
       5840696475078001361, 11170449401992604703, 2270897969802886507, 6620516959819538809,
       7640891576956012808, 13503953896175478587, 4354685564936845355, 11912009170470909681,
       5840696475078001367, 11170449401992604703, 16175846103906665108, 6620516959819538809]"
    by (simp add: init_work_def blake2b_IV_def)
  show ?thesis
    by (simp add: F_def v rounds_Jobs upt_8 Let_def)
qed

lemma h32_Jobs:
  "h32 (str ''C.Jobs'') = Inr (str ''59a717385c7f55c7c32d6e89a30a9e98'')"
proof -
  have e: "str_encode (str ''C.Jobs'') =
      Inr [67, 46, 74, 111, 98, 115]"
    by (simp add: str_def CodePoint_inverse is_surrogate_def utf8_char_def)
  have w: "words_of 16 ([67, 46, 74, 111, 98, 115] @ replicate (128 - 6) 0) =
      [126866611121731, 0, 0, 0, 0, 0, 0, 0, 0, 0, 0, 0, 0, 0, 0, 0]"
    by (simp add: words_of_16 load64_def replicate_eval)
  have l: "length [67, 46, 74, 111, 98, 115] = 6"
    by simp
  have le: "length [67, 46, 74, 111, 98, 115] \<le> 128"
    by simp
  have a: "blake2b_absorb (blake2b_init 16) 0 [67, 46, 74, 111, 98, 115] =
      [14363526620622858073, 10997239037586976195, 3283686222426770991, 9481554091272436513,
       9608675110447752575, 10257361953620867961, 10543772567365723928, 3323070274521087443]"
    by (simp only: blake2b_absorb_last [OF le] l w blake2b_init_16 F_Jobs)
  have d: "blake2b_digest [67, 46, 74, 111, 98, 115] 16 =
      [89, 167, 23, 56, 92, 127, 85, 199, 195, 45, 110, 137, 163, 10, 158, 152]"
    by (simp add: blake2b_digest_def a store64_def upt_8)
  have x: "hexdigest
      [89, 167, 23, 56, 92, 127, 85, 199, 195, 45, 110, 137, 163, 10, 158, 152] =
      str ''59a717385c7f55c7c32d6e89a30a9e98''"
    by (simp add: hexdigest_def hexdigits_def str_def)
  show ?thesis
    by (simp add: h32_def blake2b_16 e d x)
qed

lemma rounds_Office:
  "rounds
     [7305798909049122371, 0, 0, 0, 0, 0, 0, 0, 0, 0, 0, 0, 0, 0, 0, 0]
     [7640891576939301144, 13503953896175478587, 4354685564936845355, 11912009170470909681,
       5840696475078001361, 11170449401992604703, 2270897969802886507, 6620516959819538809,
       7640891576956012808, 13503953896175478587, 4354685564936845355, 11912009170470909681,
       5840696475078001369, 11170449401992604703, 16175846103906665108, 6620516959819538809] =
     [16441653484439276272, 16458568897348143997, 18419776672048989682, 15332961433629112592,
       1018199292207547853, 1871736253411247084, 4605272782029101235, 9385101192667209007,
       7928810156196916281, 2266631092504364239, 1001884657869518702, 17379781050051636034,
       4432114207932333962, 6032003196889917564, 18166687001910372516, 10697155787826047304]"
  by (simp only: rounds_expand eval64 cong: let_weak_cong option.case_cong_weak)

lemma F_Office:
  "F [7640891576939301144, 13503953896175478587, 4354685564936845355, 11912009170470909681,
       5840696475078001361, 11170449401992604703, 2270897969802886507, 6620516959819538809]
     [7305798909049122371, 0, 0, 0, 0, 0, 0, 0, 0, 0, 0, 0, 0, 0, 0, 0] 8 True =
     [16153655435433127889, 4646460583139616905, 14855592801129515703, 9274891705478522019,
       7110344613540919446, 15080633524913883023, 15886420241904684412, 5597323791968146718]"
proof -
  have v: "init_work
      [7640891576939301144, 13503953896175478587, 4354685564936845355, 11912009170470909681,
       5840696475078001361, 11170449401992604703, 2270897969802886507, 6620516959819538809] 8 True =
      [7640891576939301144, 13503953896175478587, 4354685564936845355, 11912009170470909681,
       5840696475078001361, 11170449401992604703, 2270897969802886507, 6620516959819538809,
       7640891576956012808, 13503953896175478587, 4354685564936845355, 11912009170470909681,
       5840696475078001369, 11170449401992604703, 16175846103906665108, 6620516959819538809]"
    by (simp add: init_work_def blake2b_IV_def)
  show ?thesis
    by (simp add: F_def v rounds_Office upt_8 Let_def)
qed

lemma h32_Office:
  "h32 (str ''C.Office'') = Inr (str ''d1af0c6508502de08928e448488b7b40'')"
proof -
  have e: "str_encode (str ''C.Office'') =
      Inr [67, 46, 79, 102, 102, 105, 99, 101]"
    by (simp add: str_def CodePoint_inverse is_surrogate_def utf8_char_def)
  have w: "words_of 16 ([67, 46, 79, 102, 102, 105, 99, 101] @ replicate (128 - 8) 0) =
      [7305798909049122371, 0, 0, 0, 0, 0, 0, 0, 0, 0, 0, 0, 0, 0, 0, 0]"
    by (simp add: words_of_16 load64_def replicate_eval)
  have l: "length [67, 46, 79, 102, 102, 105, 99, 101] = 8"
    by simp
  have le: "length [67, 46, 79, 102, 102, 105, 99, 101] \<le> 128"
    by simp
  have a: "blake2b_absorb (blake2b_init 16) 0 [67, 46, 79, 102, 102, 105, 99, 101] =
      [16153655435433127889, 4646460583139616905, 14855592801129515703, 9274891705478522019,
       7110344613540919446, 15080633524913883023, 15886420241904684412, 5597323791968146718]"
    by (simp only: blake2b_absorb_last [OF le] l w blake2b_init_16 F_Office)
  have d: "blake2b_digest [67, 46, 79, 102, 102, 105, 99, 101] 16 =
      [209, 175, 12, 101, 8, 80, 45, 224, 137, 40, 228, 72, 72, 139, 123, 64]"
    by (simp add: blake2b_digest_def a store64_def upt_8)
  have x: "hexdigest
      [209, 175, 12, 101, 8, 80, 45, 224, 137, 40, 228, 72, 72, 139, 123, 64] =
      str ''d1af0c6508502de08928e448488b7b40''"
    by (simp add: hexdigest_def hexdigits_def str_def)
  show ?thesis
    by (simp add: h32_def blake2b_16 e d x)
qed

lemma rounds_Policy:
  "rounds
     [8746950815728545347, 0, 0, 0, 0, 0, 0, 0, 0, 0, 0, 0, 0, 0, 0, 0]
     [7640891576939301144, 13503953896175478587, 4354685564936845355, 11912009170470909681,
       5840696475078001361, 11170449401992604703, 2270897969802886507, 6620516959819538809,
       7640891576956012808, 13503953896175478587, 4354685564936845355, 11912009170470909681,
       5840696475078001369, 11170449401992604703, 16175846103906665108, 6620516959819538809] =
     [14894305923378391099, 14993317327607182407, 9365232496545275913, 3277753431355316946,
       2133884327503126602, 312420973613534152, 8936943893116578767, 3421963643124523775,
       7612915139619239634, 15767267424236784470, 57513136045728256, 6902224635119120622,
       16759549058951239189, 2037597869723048828, 375302202618752894, 7771149415763074299]"
  by (simp only: rounds_expand eval64 cong: let_weak_cong option.case_cong_weak)

lemma F_Policy:
  "F [7640891576939301144, 13503953896175478587, 4354685564936845355, 11912009170470909681,
       5840696475078001361, 11170449401992604703, 2270897969802886507, 6620516959819538809]
     [8746950815728545347, 0, 0, 0, 0, 0, 0, 0, 0, 0, 0, 0, 0, 0, 0, 0] 8 True =
     [14779780200186533873, 12800864021377865770, 13642913728205617698, 15562961361786166477,
       11819317960986277006, 9446187809591065771, 7399671372341705178, 2253251086939447165]"
proof -
  have v: "init_work
      [7640891576939301144, 13503953896175478587, 4354685564936845355, 11912009170470909681,
       5840696475078001361, 11170449401992604703, 2270897969802886507, 6620516959819538809] 8 True =
      [7640891576939301144, 13503953896175478587, 4354685564936845355, 11912009170470909681,
       5840696475078001361, 11170449401992604703, 2270897969802886507, 6620516959819538809,
       7640891576956012808, 13503953896175478587, 4354685564936845355, 11912009170470909681,
       5840696475078001369, 11170449401992604703, 16175846103906665108, 6620516959819538809]"
    by (simp add: init_work_def blake2b_IV_def)
  show ?thesis
    by (simp add: F_def v rounds_Policy upt_8 Let_def)
qed

lemma h32_Policy:
  "h32 (str ''C.Policy'') = Inr (str ''f1577812c9531ccd2a584e6c01cea5b1'')"
proof -
  have e: "str_encode (str ''C.Policy'') =
      Inr [67, 46, 80, 111, 108, 105, 99, 121]"
    by (simp add: str_def CodePoint_inverse is_surrogate_def utf8_char_def)
  have w: "words_of 16 ([67, 46, 80, 111, 108, 105, 99, 121] @ replicate (128 - 8) 0) =
      [8746950815728545347, 0, 0, 0, 0, 0, 0, 0, 0, 0, 0, 0, 0, 0, 0, 0]"
    by (simp add: words_of_16 load64_def replicate_eval)
  have l: "length [67, 46, 80, 111, 108, 105, 99, 121] = 8"
    by simp
  have le: "length [67, 46, 80, 111, 108, 105, 99, 121] \<le> 128"
    by simp
  have a: "blake2b_absorb (blake2b_init 16) 0 [67, 46, 80, 111, 108, 105, 99, 121] =
      [14779780200186533873, 12800864021377865770, 13642913728205617698, 15562961361786166477,
       11819317960986277006, 9446187809591065771, 7399671372341705178, 2253251086939447165]"
    by (simp only: blake2b_absorb_last [OF le] l w blake2b_init_16 F_Policy)
  have d: "blake2b_digest [67, 46, 80, 111, 108, 105, 99, 121] 16 =
      [241, 87, 120, 18, 201, 83, 28, 205, 42, 88, 78, 108, 1, 206, 165, 177]"
    by (simp add: blake2b_digest_def a store64_def upt_8)
  have x: "hexdigest
      [241, 87, 120, 18, 201, 83, 28, 205, 42, 88, 78, 108, 1, 206, 165, 177] =
      str ''f1577812c9531ccd2a584e6c01cea5b1''"
    by (simp add: hexdigest_def hexdigits_def str_def)
  show ?thesis
    by (simp add: h32_def blake2b_16 e d x)
qed

lemma rounds_Runner:
  "rounds
     [8243116113665338947, 0, 0, 0, 0, 0, 0, 0, 0, 0, 0, 0, 0, 0, 0, 0]
     [7640891576939301144, 13503953896175478587, 4354685564936845355, 11912009170470909681,
       5840696475078001361, 11170449401992604703, 2270897969802886507, 6620516959819538809,
       7640891576956012808, 13503953896175478587, 4354685564936845355, 11912009170470909681,
       5840696475078001369, 11170449401992604703, 16175846103906665108, 6620516959819538809] =
     [263001167485044195, 13547500589446181219, 11848039925358699102, 1880896708657326361,
       8631885607975055237, 13669001737602565104, 8139578320232564172, 3174917898225540391,
       4109140426493043837, 16228214713255468425, 16354355668403025501, 13025571078173673035,
       5626321326875262328, 15175963988747150577, 9700347062845962090, 15421017963974706622]"
  by (simp only: rounds_expand eval64 cong: let_weak_cong option.case_cong_weak)

lemma F_Runner:
  "F [7640891576939301144, 13503953896175478587, 4354685564936845355, 11912009170470909681,
       5840696475078001361, 11170449401992604703, 2270897969802886507, 6620516959819538809]
     [8243116113665338947, 0, 0, 0, 0, 0, 0, 0, 0, 0, 0, 0, 0, 0, 0, 0] 8 True =
     [5812213347299944582, 16596883700634029009, 8859729662658260008, 833626966182680995,
       7552669797743644716, 17594647795412044574, 16854933480117669837, 11668026441309370848]"
proof -
  have v: "init_work
      [7640891576939301144, 13503953896175478587, 4354685564936845355, 11912009170470909681,
       5840696475078001361, 11170449401992604703, 2270897969802886507, 6620516959819538809] 8 True =
      [7640891576939301144, 13503953896175478587, 4354685564936845355, 11912009170470909681,
       5840696475078001361, 11170449401992604703, 2270897969802886507, 6620516959819538809,
       7640891576956012808, 13503953896175478587, 4354685564936845355, 11912009170470909681,
       5840696475078001369, 11170449401992604703, 16175846103906665108, 6620516959819538809]"
    by (simp add: init_work_def blake2b_IV_def)
  show ?thesis
    by (simp add: F_def v rounds_Runner upt_8 Let_def)
qed

lemma h32_Runner:
  "h32 (str ''C.Runner'') = Inr (str ''86e898b43e21a950d10bc3aacaf953e6'')"
proof -
  have e: "str_encode (str ''C.Runner'') =
      Inr [67, 46, 82, 117, 110, 110, 101, 114]"
    by (simp add: str_def CodePoint_inverse is_surrogate_def utf8_char_def)
  have w: "words_of 16 ([67, 46, 82, 117, 110, 110, 101, 114] @ replicate (128 - 8) 0) =
      [8243116113665338947, 0, 0, 0, 0, 0, 0, 0, 0, 0, 0, 0, 0, 0, 0, 0]"
    by (simp add: words_of_16 load64_def replicate_eval)
  have l: "length [67, 46, 82, 117, 110, 110, 101, 114] = 8"
    by simp
  have le: "length [67, 46, 82, 117, 110, 110, 101, 114] \<le> 128"
    by simp
  have a: "blake2b_absorb (blake2b_init 16) 0 [67, 46, 82, 117, 110, 110, 101, 114] =
      [5812213347299944582, 16596883700634029009, 8859729662658260008, 833626966182680995,
       7552669797743644716, 17594647795412044574, 16854933480117669837, 11668026441309370848]"
    by (simp only: blake2b_absorb_last [OF le] l w blake2b_init_16 F_Runner)
  have d: "blake2b_digest [67, 46, 82, 117, 110, 110, 101, 114] 16 =
      [134, 232, 152, 180, 62, 33, 169, 80, 209, 11, 195, 170, 202, 249, 83, 230]"
    by (simp add: blake2b_digest_def a store64_def upt_8)
  have x: "hexdigest
      [134, 232, 152, 180, 62, 33, 169, 80, 209, 11, 195, 170, 202, 249, 83, 230] =
      str ''86e898b43e21a950d10bc3aacaf953e6''"
    by (simp add: hexdigest_def hexdigits_def str_def)
  show ?thesis
    by (simp add: h32_def blake2b_16 e d x)
qed

section \<open>Code points\<close>

lemma ord_CodePoint: "n < 1114112 \<Longrightarrow> ord (CodePoint n) = n"
  by (simp add: CodePoint_inverse)

lemma ord_less: "ord c < 1114112"
  using ord [of c] by simp

lemma CodePoint_eq_iff:
  "m < 1114112 \<Longrightarrow> n < 1114112 \<Longrightarrow> (CodePoint m = CodePoint n) = (m = n)"
  by (simp add: CodePoint_inject)

lemma str_inject: "(str a = str b) = (a = b)"
proof -
  have "inj (\<lambda>c::char. CodePoint (of_char c))"
  proof (rule injI)
    fix c d :: char
    assume h: "CodePoint (of_char c) = CodePoint (of_char d)"
    have "(of_char c :: nat) < 256" "(of_char d :: nat) < 256"
      by simp_all
    then have "(of_char c :: nat) < 1114112" "(of_char d :: nat) < 1114112"
      by linarith+
    with h have "(of_char c :: nat) = of_char d"
      by (simp add: CodePoint_eq_iff)
    then show "c = d"
      by simp
  qed
  then show ?thesis
    unfolding str_def by simp
qed

section \<open>Encoding\<close>

text \<open>\<^verbatim>\<open>s.encode()\<close> fails exactly on the strings that hold a surrogate, and CPython's
  shifts and masks give the bytes of RFC 3629.\<close>

lemma str_encode_surrogate:
  "list_ex is_surrogate s \<Longrightarrow> str_encode s = Inl UnicodeEncodeError"
  by (induction s) auto

lemma str_encode_ok:
  "\<not> list_ex is_surrogate s \<Longrightarrow>
   str_encode s = Inr (concat (map (\<lambda>c. utf8_char (ord c)) s))"
  by (induction s) auto

lemma and_63: "(n::nat) AND 63 = n mod 64"
  using take_bit_eq_mask [of 6 n] by (simp add: take_bit_eq_mod mask_eq_exp_minus_1)

lemma and_15: "(n::nat) AND 15 = n mod 16"
  using take_bit_eq_mask [of 4 n] by (simp add: take_bit_eq_mod mask_eq_exp_minus_1)

lemma or_push_take:
  "push_bit k a OR take_bit k (x::nat) = push_bit k a + take_bit k x"
  by (rule disjunctive_add_eq_or [symmetric]) (auto simp: bit_eq_iff bit_simps)

lemma or_small:
  fixes x :: nat
  shows "x < 64 \<Longrightarrow> 128 OR x = 128 + x"
    and "x < 32 \<Longrightarrow> 192 OR x = 192 + x"
    and "x < 16 \<Longrightarrow> 224 OR x = 224 + x"
    and "x < 8 \<Longrightarrow> 240 OR x = 240 + x"
  using or_push_take [of 6 2 x] or_push_take [of 5 6 x] or_push_take [of 4 14 x]
    or_push_take [of 3 30 x]
  by (simp_all add: take_bit_nat_eq_self)

lemma utf8_char_scalar: "n < 1114112 \<Longrightarrow> utf8_char n = utf8_scalar n"
  by (simp add: utf8_char_def utf8_scalar_def drop_bit_eq_div and_63 or_small)

section \<open>The digest and its rendering\<close>

lemma length_F: "length (F h m t f) = 8"
  by (simp add: F_def Let_def)

lemma length_blake2b_absorb: "length (blake2b_absorb h t bs) = 8"
  by (induction h t bs rule: blake2b_absorb.induct)
    (subst blake2b_absorb.simps, simp add: length_F)

lemma length_store64: "length (store64 w) = 8"
  by (simp add: store64_def)

lemma length_concat_store64: "length (concat (map store64 ws)) = 8 * length ws"
  by (induction ws) (simp_all add: length_store64)

lemma length_blake2b: "n \<le> 64 \<Longrightarrow> length (blake2b_digest bs n) = n"
  by (simp add: blake2b_digest_def length_concat_store64 length_blake2b_absorb)

lemma nibble_high: "unat (drop_bit 4 b) = unat b div 16" for b :: byte
proof -
  have "unat (drop_bit 4 b) = drop_bit 4 (unat b)"
    by (rule unat_drop_bit_eq)
  also have "\<dots> = unat b div 2 ^ 4"
    by (rule drop_bit_eq_div)
  finally show ?thesis
    by simp
qed

lemma nibble_low: "unat (b AND 15) = unat b mod 16" for b :: byte
  by (simp add: unsigned_and_eq and_15)

lemma unat_byte_less: "unat b < 256" for b :: byte
  using unsigned_less [of b] by simp

lemma less_16_cases:
  "d < 16 \<Longrightarrow>
   d = 0 \<or> d = 1 \<or> d = 2 \<or> d = 3 \<or> d = 4 \<or> d = 5 \<or> d = 6 \<or> d = 7 \<or> d = 8 \<or> d = 9
   \<or> d = 10 \<or> d = 11 \<or> d = 12 \<or> d = 13 \<or> d = 14 \<or> d = (15::nat)"
  by presburger

lemma hexdigits_nth: "d < 16 \<Longrightarrow> hexdigits ! d = lowercase_hex_digit d"
  by (drule less_16_cases) (auto simp: hexdigits_def str_def lowercase_hex_digit_def)

lemma is_lower_hex_digit: "d < 16 \<Longrightarrow> is_lower_hex (lowercase_hex_digit d)"
  by (auto simp: is_lower_hex_def lowercase_hex_digit_def ord_CodePoint)

lemma hexdigest_lowercase_hex: "hexdigest bs = lowercase_hex bs"
proof -
  have "[hexdigits ! unat (drop_bit 4 b), hexdigits ! unat (b AND 15)] =
        [lowercase_hex_digit (unat b div 16), lowercase_hex_digit (unat b mod 16)]"
    for b :: byte
    using unat_byte_less [of b] by (simp add: nibble_high nibble_low hexdigits_nth)
  then show ?thesis
    by (simp add: hexdigest_def lowercase_hex_def)
qed

lemma length_lowercase_hex: "length (lowercase_hex bs) = 2 * length bs"
  by (induction bs) (simp_all add: lowercase_hex_def)

lemma lowercase_hex_pattern: "list_all is_lower_hex (lowercase_hex bs)"
proof (induction bs)
  case Nil
  then show ?case by (simp add: lowercase_hex_def)
next
  case (Cons b bs)
  have "unat b div 16 < 16" "unat b mod 16 < 16"
    using unat_byte_less [of b] by simp_all
  with Cons show ?case
    by (simp add: lowercase_hex_def is_lower_hex_digit)
qed

section \<open>The serialisation\<close>

lemma foldl_write: "foldl (\<lambda>fp chunk. fp @ chunk) fp cs = fp @ concat cs"
  by (induction cs arbitrary: fp) simp_all

lemma newline_indent_2:
  "newline_indent 2 (Suc 0) = CodePoint 10 # str ''  ''"
  "newline_indent 2 0 = [CodePoint 10]"
proof -
  have r: "replicate 2 x = [x, x]" for x :: codepoint
    by (simp add: numeral_2_eq_2)
  show "newline_indent 2 (Suc 0) = CodePoint 10 # str ''  ''"
    by (simp add: newline_indent_def str_def r)
  show "newline_indent 2 0 = [CodePoint 10]"
    by (simp add: newline_indent_def)
qed

lemma items_not_first:
  "d \<noteq> [] \<Longrightarrow>
   concat (iterencode_items sep False d) = sep @ concat (iterencode_items sep True d)"
  by (cases d) auto

lemma member_lines_nonempty: "d \<noteq> [] \<Longrightarrow> member_lines d \<noteq> []"
  by (induction d rule: member_lines.induct) simp_all

lemma join_lines_Cons: "ls \<noteq> [] \<Longrightarrow> join_lines (l # ls) = l @ CodePoint 10 # join_lines ls"
  by (cases ls) simp_all

lemma items_lines:
  "d \<noteq> [] \<Longrightarrow>
   str ''  '' @ concat (iterencode_items (str '','' @ CodePoint 10 # str ''  '') True d)
     @ CodePoint 10 # str ''}'' =
   join_lines (member_lines d @ [str ''}''])"
proof (induction d rule: member_lines.induct)
  case 1
  then show ?case by simp
next
  case (2 k v)
  show ?case by simp
next
  case (3 k v m d)
  have ne: "member_lines (m # d) @ [str ''}''] \<noteq> []"
    by simp
  show ?case
    using "3.IH" by (simp add: items_not_first join_lines_Cons [OF ne])
qed

lemma json_dump_indented: "json_dump d fp 2 = fp @ indented_object d"
proof (cases "d = []")
  case True
  then show ?thesis
    by (simp add: json_dump_def iterencode_dict_def indented_object_def)
next
  case False
  have ne: "member_lines d @ [str ''}''] \<noteq> []"
    by simp
  show ?thesis
    using False items_lines [OF False]
    by (simp add: json_dump_def iterencode_dict_def indented_object_def foldl_write
        newline_indent_2 join_lines_Cons [OF ne])
qed

lemma join_lines_nonempty: "ls \<noteq> [] \<Longrightarrow> last ls \<noteq> [] \<Longrightarrow> join_lines ls \<noteq> []"
  by (induction ls rule: join_lines.induct) auto

lemma last_join_lines:
  "ls \<noteq> [] \<Longrightarrow> last ls \<noteq> [] \<Longrightarrow> last (join_lines ls) = last (last ls)"
proof (induction ls rule: join_lines.induct)
  case 1
  then show ?case by simp
next
  case (2 l)
  then show ?case by simp
next
  case (3 l m ls)
  have "join_lines (m # ls) \<noteq> []"
    using "3.prems" by (intro join_lines_nonempty) simp_all
  with 3 show ?case by simp
qed

lemma last_indented_object: "last (indented_object d) = CodePoint 125"
proof (cases "d = []")
  case True
  then show ?thesis by (simp add: indented_object_def str_def)
next
  case False
  have "last (join_lines ((str ''{'' # member_lines d) @ [str ''}''])) = last (str ''}'')"
    by (subst last_join_lines) (simp_all add: str_def)
  with False show ?thesis by (simp add: indented_object_def str_def)
qed

lemma indented_object_nonempty: "indented_object d \<noteq> []"
proof (cases "d = []")
  case True
  then show ?thesis by (simp add: indented_object_def str_def)
next
  case False
  have "join_lines ((str ''{'' # member_lines d) @ [str ''}'']) \<noteq> []"
    by (rule join_lines_nonempty) (simp_all add: str_def)
  with False show ?thesis by (simp add: indented_object_def)
qed

section \<open>Properties of \<open>h32\<close>\<close>

lemma blake2b_rfc_16: "blake2b_digest bs 16 = blake2b_rfc 16 bs"
proof -
  have "blake2b_IV[0 := blake2b_IV ! 0 XOR 0x01010000 XOR of_nat 16] = blake2b_init 16"
    by (simp add: blake2b_init_16 blake2b_IV_def)
  then show ?thesis
    by (simp add: blake2b_digest_def blake2b_rfc_def)
qed

lemma h32_surrogate: "list_ex is_surrogate s \<Longrightarrow> h32 s = Inl UnicodeEncodeError"
  by (simp add: h32_def str_encode_surrogate)

lemma h32_ok:
  "\<not> list_ex is_surrogate s \<Longrightarrow>
   h32 s = Inr (hexdigest (blake2b_digest (concat (map (\<lambda>c. utf8_char (ord c)) s)) 16))"
  by (simp add: h32_def str_encode_ok blake2b_16)

lemma hexdigest_format:
  "length (hexdigest (blake2b_digest bs 16)) = 32 \<and> list_all is_lower_hex (hexdigest (blake2b_digest bs 16))"
  by (simp add: hexdigest_lowercase_hex length_lowercase_hex lowercase_hex_pattern
      length_blake2b)

lemma names_encodable:
  "\<not> list_ex is_surrogate (str ''C.Messenger'')"
  "\<not> list_ex is_surrogate (str ''C.Jobs'')"
  "\<not> list_ex is_surrogate (str ''C.Office'')"
  "\<not> list_ex is_surrogate (str ''C.Policy'')"
  "\<not> list_ex is_surrogate (str ''C.Runner'')"
  by (simp_all add: str_def is_surrogate_def ord_CodePoint)

section \<open>The mapping and the document\<close>

lemma out_eval:
  "out =
     Inr [(str ''C.Messenger'', str ''96fc4e7e0691a83b54577e08f7b58c0b''),
         (str ''C.Jobs'', str ''59a717385c7f55c7c32d6e89a30a9e98''),
         (str ''C.Office'', str ''d1af0c6508502de08928e448488b7b40''),
         (str ''C.Policy'', str ''f1577812c9531ccd2a584e6c01cea5b1''),
         (str ''C.Runner'', str ''86e898b43e21a950d10bc3aacaf953e6'')]"
  by (simp add: out_def CONTAINERS_def h32_Messenger h32_Jobs h32_Office h32_Policy
      h32_Runner str_inject)

lemma document_eval:
  "indented_object
     [(str ''C.Messenger'', str ''96fc4e7e0691a83b54577e08f7b58c0b''),
         (str ''C.Jobs'', str ''59a717385c7f55c7c32d6e89a30a9e98''),
         (str ''C.Office'', str ''d1af0c6508502de08928e448488b7b40''),
         (str ''C.Policy'', str ''f1577812c9531ccd2a584e6c01cea5b1''),
         (str ''C.Runner'', str ''86e898b43e21a950d10bc3aacaf953e6'')] =
   str ''{\<newline>''
     @ str ''  \"C.Messenger\": \"96fc4e7e0691a83b54577e08f7b58c0b\",\<newline>''
     @ str ''  \"C.Jobs\": \"59a717385c7f55c7c32d6e89a30a9e98\",\<newline>''
     @ str ''  \"C.Office\": \"d1af0c6508502de08928e448488b7b40\",\<newline>''
     @ str ''  \"C.Policy\": \"f1577812c9531ccd2a584e6c01cea5b1\",\<newline>''
     @ str ''  \"C.Runner\": \"86e898b43e21a950d10bc3aacaf953e6\"\<newline>''
     @ str ''}''"
  by (simp add: indented_object_def encode_basestring_ascii_def escape_char_def str_def
      ord_CodePoint Let_def)


lemma main_eval:
  "main p =
     Inr (p\<lparr>stdout := stdout p @
       indented_object
         [(str ''C.Messenger'', str ''96fc4e7e0691a83b54577e08f7b58c0b''),
         (str ''C.Jobs'', str ''59a717385c7f55c7c32d6e89a30a9e98''),
         (str ''C.Office'', str ''d1af0c6508502de08928e448488b7b40''),
         (str ''C.Policy'', str ''f1577812c9531ccd2a584e6c01cea5b1''),
         (str ''C.Runner'', str ''86e898b43e21a950d10bc3aacaf953e6'')]\<rparr>)"
  by (simp add: main_def out_eval json_dump_indented)

section \<open>Calls, and standard output as bytes\<close>

text \<open>The script call by call agrees with \<open>main\<close>, and an ASCII text is encoded
  character by character.\<close>

lemma h32_call_eq: "h32_call s p = (h32 s, p)"
  by (simp add: h32_call_def call_then_def encode_call_def blake2b_call_def
      hexdigest_call_def h32_def split: sum.splits)

lemma h32_failure: "(h32 s = Inl e) = (e = UnicodeEncodeError \<and> list_ex is_surrogate s)"
  by (cases "list_ex is_surrogate s") (auto simp: h32_surrogate h32_ok)

lemma comp_call_eq: "comp_call names d p = (dict_comp names d, p)"
  by (induction names arbitrary: d)
    (simp_all add: call_then_def h32_call_eq split: sum.splits)

lemma write_all_eq: "write_all chunks p = (Inr (), p\<lparr>stdout := stdout p @ concat chunks\<rparr>)"
  by (induction chunks arbitrary: p) (simp_all add: call_then_def write_call_def)

lemma main_call_eq:
  "main_call p = (case main p of Inl e \<Rightarrow> (Inl e, p) | Inr p' \<Rightarrow> (Inr (), p'))"
  by (simp add: main_call_def call_then_def comp_call_eq write_all_eq main_def out_def
      json_dump_def foldl_write split: sum.splits)












section \<open>The claims\<close>

text \<open>
  C1. For every string \<open>s\<close>, \<open>h32 s\<close> is the lowercase hexadecimal rendering of the BLAKE2b
  digest, with a 16-byte output, of the UTF-8 encoding of \<open>s\<close>: the script's pipeline
  \<^verbatim>\<open>blake2b(s.encode(), digest_size=16).hexdigest()\<close> agrees with the reference pipeline
  of the specification on every string. Where \<open>s\<close> holds a surrogate there is no UTF-8
  encoding, the reference has no value and \<open>h32\<close> raises.
\<close>

theorem h32_is_reference_pipeline:
  "h32 s = (case identifier_spec s of None \<Rightarrow> Inl UnicodeEncodeError | Some d \<Rightarrow> Inr d)"
proof (cases "list_ex is_surrogate s")
  case True
  then show ?thesis
    by (simp add: h32_surrogate identifier_spec_def utf8_encoding_def)
next
  case False
  have m: "map (\<lambda>c. utf8_char (ord c)) s = map (\<lambda>c. utf8_scalar (ord c)) s"
    by (simp add: utf8_char_scalar ord_less)
  from False show ?thesis
    by (simp add: h32_ok identifier_spec_def utf8_encoding_def hexdigest_lowercase_hex
        blake2b_rfc_16 m)
qed

theorem h32_is_reference_pipeline_witness:
  "identifier_spec (str ''C.Policy'') = Some (str ''f1577812c9531ccd2a584e6c01cea5b1'')"
  using h32_is_reference_pipeline [of "str ''C.Policy''"] h32_Policy
  by (cases "identifier_spec (str ''C.Policy'')") simp_all




text \<open>
  C3, as amended. For every string \<open>s\<close> that holds no surrogate code point, \<open>h32 s\<close> is a
  string of exactly 32 characters, each a lowercase hexadecimal digit; and every
  identifier of the emitted mapping has this form.
\<close>

theorem h32_digest_format:
  "(\<not> list_ex is_surrogate s \<longrightarrow>
      (\<exists>d. h32 s = Inr d \<and> length d = 32 \<and> list_all is_lower_hex d))
   \<and> (\<exists>m. out = Inr m
          \<and> list_all (\<lambda>kv. length (snd kv) = 32 \<and> list_all is_lower_hex (snd kv)) m)"
proof (intro conjI impI)
  assume "\<not> list_ex is_surrogate s"
  then show "\<exists>d. h32 s = Inr d \<and> length d = 32 \<and> list_all is_lower_hex d"
    by (simp add: h32_ok hexdigest_format)
next
  show "\<exists>m. out = Inr m
          \<and> list_all (\<lambda>kv. length (snd kv) = 32 \<and> list_all is_lower_hex (snd kv)) m"
    unfolding out_eval
    by (intro exI conjI, rule refl)
      (simp add: str_def is_lower_hex_def ord_CodePoint)
qed

theorem h32_digest_format_witness:
  "\<not> list_ex is_surrogate (str ''C.Office'')
   \<and> (\<exists>d. h32 (str ''C.Office'') = Inr d \<and> length d = 32 \<and> list_all is_lower_hex d)"
proof -
  have a: "\<not> list_ex is_surrogate (str ''C.Office'')"
    by (rule names_encodable)
  from h32_digest_format [of "str ''C.Office''"] a show ?thesis
    by blast
qed

theorem h32_digest_format_counterexample:
  "\<not> (\<exists>d. h32 (str ''C.'' @ [CodePoint 56832]) = Inr d
          \<and> length d = 32 \<and> list_all is_lower_hex d)"
proof -
  have "list_ex is_surrogate (str ''C.'' @ [CodePoint 56832])"
    by (simp add: is_surrogate_def ord_CodePoint)
  then have "h32 (str ''C.'' @ [CodePoint 56832]) = Inl UnicodeEncodeError"
    by (rule h32_surrogate)
  then show ?thesis
    by simp
qed

text \<open>
  C4. The emitted mapping has exactly one entry for each name of \<open>CONTAINERS\<close>, in the
  order of the list, with no other entry and no key twice, and the value of every entry
  is \<open>h32\<close> of its key; it is this mapping that \<open>main\<close> serialises.
\<close>

theorem out_complete:
  "\<exists>d. out = Inr d \<and> map fst d = CONTAINERS \<and> distinct (map fst d) \<and> length d = 5
     \<and> list_all (\<lambda>kv. h32 (fst kv) = Inr (snd kv)) d
     \<and> main p = Inr (p\<lparr>stdout := json_dump d (stdout p) 2\<rparr>)"
  unfolding out_eval
  by (intro exI conjI, rule refl)
    (simp_all add: CONTAINERS_def str_inject h32_Messenger h32_Jobs h32_Office h32_Policy
      h32_Runner main_def out_eval)

text \<open>
  C5. The keys stand in the serialised output in the declaration order of the list:
  \<^verbatim>\<open>C.Messenger\<close>, \<^verbatim>\<open>C.Jobs\<close>, \<^verbatim>\<open>C.Office\<close>, \<^verbatim>\<open>C.Policy\<close>, \<^verbatim>\<open>C.Runner\<close>. The theorem gives the
  whole text that is written.
\<close>

theorem main_output_key_order:
  "\<exists>d. out = Inr d
     \<and> map fst d =
         [str ''C.Messenger'', str ''C.Jobs'', str ''C.Office'', str ''C.Policy'',
          str ''C.Runner'']
     \<and> main p =
         Inr (p\<lparr>stdout := stdout p @
           str ''{\<newline>''
           @ str ''  \"C.Messenger\": \"96fc4e7e0691a83b54577e08f7b58c0b\",\<newline>''
           @ str ''  \"C.Jobs\": \"59a717385c7f55c7c32d6e89a30a9e98\",\<newline>''
           @ str ''  \"C.Office\": \"d1af0c6508502de08928e448488b7b40\",\<newline>''
           @ str ''  \"C.Policy\": \"f1577812c9531ccd2a584e6c01cea5b1\",\<newline>''
           @ str ''  \"C.Runner\": \"86e898b43e21a950d10bc3aacaf953e6\"\<newline>''
           @ str ''}''\<rparr>)"
  unfolding out_eval
  by (intro exI conjI, rule refl) (simp_all add: main_eval document_eval)

text \<open>
  C6. The five identifiers of the five names are pairwise distinct.
\<close>

theorem identifiers_pairwise_distinct:
  "\<exists>v1 v2 v3 v4 v5.
     map h32 CONTAINERS = [Inr v1, Inr v2, Inr v3, Inr v4, Inr v5]
     \<and> distinct [v1, v2, v3, v4, v5]"
  by (simp add: CONTAINERS_def h32_Messenger h32_Jobs h32_Office h32_Policy h32_Runner
      str_inject)

text \<open>
  C7. Hashing the UTF-8 bytes of \<^verbatim>\<open>C.Messenger\<close> with the 128-bit configuration gives one
  fixed string of 32 hexadecimal characters; the value is the one below.
\<close>

theorem h32_C_Messenger_value:
  "h32 (str ''C.Messenger'') = Inr (str ''96fc4e7e0691a83b54577e08f7b58c0b'')"
  by (rule h32_Messenger)

text \<open>
  C8, as amended. \<open>h32\<close> has no effect: a call leaves the arguments, the environment,
  the files and standard output of the process as they were. It returns a digest
  exactly for the strings that hold no surrogate code point; on a string that holds one,
  \<^verbatim>\<open>s.encode()\<close> raises \<^verbatim>\<open>UnicodeEncodeError\<close>, and that is the only exception of \<open>h32\<close>:
  the \<^verbatim>\<open>ValueError\<close> of the constructor cannot arise with a digest size of 16.
\<close>

theorem h32_total_on_encodable:
  "((\<exists>d. h32 s = Inr d) = (\<not> list_ex is_surrogate s))
   \<and> ((h32 s = Inl e) = (e = UnicodeEncodeError \<and> list_ex is_surrogate s))
   \<and> h32_call s p = (h32 s, p)"
  by (cases "list_ex is_surrogate s")
    (auto simp: h32_failure h32_call_eq h32_ok h32_surrogate)

theorem h32_total_on_encodable_witness:
  "(\<exists>d. h32 (str ''C.Jobs'') = Inr d)
   \<and> h32_call (str ''C.Jobs'')
       \<lparr>argv = [], environ = [], files = [], stdout = str ''{''\<rparr> =
     (Inr (str ''59a717385c7f55c7c32d6e89a30a9e98''),
      \<lparr>argv = [], environ = [], files = [], stdout = str ''{''\<rparr>)"
proof -
  have a: "\<not> list_ex is_surrogate (str ''C.Jobs'')"
    by (rule names_encodable)
  from h32_total_on_encodable
    [of "str ''C.Jobs''" UnicodeEncodeError
      "\<lparr>argv = [], environ = [], files = [], stdout = str ''{''\<rparr>"] a h32_Jobs
  show ?thesis
    by simp
qed

theorem h32_total_counterexample:
  "h32 [CodePoint 55296] = Inl UnicodeEncodeError \<and> \<not> (\<exists>d. h32 [CodePoint 55296] = Inr d)"
proof -
  have "list_ex is_surrogate [CodePoint 55296]"
    by (simp add: is_surrogate_def ord_CodePoint)
  then have "h32 [CodePoint 55296] = Inl UnicodeEncodeError"
    by (rule h32_surrogate)
  then show ?thesis
    by simp
qed

text \<open>
  C9. What \<^verbatim>\<open>json.dump\<close> writes with \<^verbatim>\<open>indent=2\<close> is the indented document of the mapping:
  the braces on lines of their own and every member on a line behind exactly two spaces;
  \<open>main\<close> appends this one document to standard output and writes nothing else.
\<close>

theorem main_writes_indented_document:
  "json_dump d fp 2 = fp @ indented_object d
   \<and> (\<exists>m. out = Inr m \<and> main p = Inr (p\<lparr>stdout := stdout p @ indented_object m\<rparr>))"
  unfolding out_eval
  by (intro exI conjI, rule json_dump_indented, rule refl) (rule main_eval)

text \<open>
  C10. The text written ends with the closing brace; no newline follows it.
\<close>

theorem main_output_ends_with_brace:
  "\<exists>t. main p = Inr (p\<lparr>stdout := stdout p @ t\<rparr>) \<and> t \<noteq> []
     \<and> last t = CodePoint 125 \<and> last t \<noteq> CodePoint 10"
  by (intro exI conjI, rule main_eval)
    (simp_all add: last_indented_object indented_object_nonempty CodePoint_eq_iff)

end
